theory Spec2Isabelle
  imports Main "HOL-Library.AList"
begin

section \<open>The I/O context isolation decorator of phpsploit\<close>

text \<open>
  The module \<^verbatim>\<open>isolate_io_context_decorator.py\<close> has two parts: the validation of the
  decorator's keyword arguments (\<^verbatim>\<open>init_decorator_args\<close>) and the wrapper that saves,
  overrides and restores the readline completer and \<^verbatim>\<open>sys.stdout\<close> around a call of
  the decorated function.
\<close>

subsection \<open>Python values and exceptions of the validation\<close>

text \<open>
  The values a keyword argument can carry. \<^verbatim>\<open>isinstance(value, bool)\<close> holds for
  \<open>PyBool\<close> only: an \<^verbatim>\<open>int\<close> such as 0 or 1 is not a \<^verbatim>\<open>bool\<close>.
\<close>

datatype pyval = PyBool bool | PyInt int | PyStr string | PyNone

text \<open>
  An exception of the validation is its class together with the format string and the
  operands of \<^verbatim>\<open>%\<close>, kept unrendered:
  \<^verbatim>\<open>TypeError("invalid io entity: %r" % key)\<close> is
  \<open>TypeError ''invalid io entity: %r'' [PyStr key]\<close>.
\<close>

datatype config_error =
    TypeError string "pyval list"
  | ValueError string "pyval list"

text \<open>
  A Python \<^verbatim>\<open>dict\<close> keeps its keys in insertion order, and the order of
  \<^verbatim>\<open>kwargs.items()\<close> decides which entry the loop rejects first: dictionaries are
  association lists, \<^verbatim>\<open>d[k] = v\<close> is \<open>AList.update\<close> (in place when the key is there,
  appended otherwise).
\<close>

type_synonym kwargs = "(string \<times> pyval) list"
type_synonym config = "(string \<times> bool) list"

subsection \<open>Validation of the decorator's arguments\<close>

definition IO_ENTITIES :: "string list" where
  "IO_ENTITIES = [''readline'', ''stdout'']"

text \<open>The \<^verbatim>\<open>for key, value in kwargs.items()\<close> loop, with \<^verbatim>\<open>arguments\<close> as accumulator.\<close>

fun set_entities :: "kwargs \<Rightarrow> config \<Rightarrow> config_error + config" where
  "set_entities [] arguments = Inr arguments"
| "set_entities ((key, value) # rest) arguments =
     (if key \<notin> set IO_ENTITIES then
        Inl (TypeError ''invalid io entity: %r'' [PyStr key])
      else
        (case value of
           PyBool b \<Rightarrow> set_entities rest (AList.update key b arguments)
         | _ \<Rightarrow> Inl (TypeError ''%s=%r: boolean expected'' [PyStr key, value])))"

definition init_decorator_args :: "kwargs \<Rightarrow> config_error + config" where
  "init_decorator_args kwargs =
     (if kwargs = [] then Inr (map (\<lambda>k. (k, True)) IO_ENTITIES)
      else
        (case set_entities kwargs [] of
           Inl e \<Rightarrow> Inl e
         | Inr arguments \<Rightarrow>
             if set (map fst arguments) \<noteq> set IO_ENTITIES then
               Inl (ValueError ''all IO_ENTITIES must be explicitly provided'' [])
             else Inr arguments))"

text \<open>
  \<^verbatim>\<open>isolate_io_context(**decorator_kwargs)\<close> validates once, when the decorator is
  built: a failure of the validation is raised there, and no decorator exists. Otherwise
  the closures \<^verbatim>\<open>decorator\<close> and \<^verbatim>\<open>wrapper\<close> share the one cell \<^verbatim>\<open>decorator_args\<close>; the
  decorator is represented by the content of that cell.
\<close>

datatype decorator = Decorator (cell: config)

definition isolate_io_context :: "kwargs \<Rightarrow> config_error + decorator" where
  "isolate_io_context decorator_kwargs =
     (case init_decorator_args decorator_kwargs of
        Inl e \<Rightarrow> Inl e
      | Inr decorator_args \<Rightarrow> Inr (Decorator decorator_args))"

subsection \<open>The process-wide I/O state\<close>

text \<open>
  The completer installed in the readline module: \<^verbatim>\<open>None\<close>, the \<^verbatim>\<open>(lambda x: x)\<close> the
  wrapper installs, or any other callable. Streams are object references.
\<close>

datatype completer = NoCompleter | IdentityLambda | Completer nat

datatype stream = Stream nat

record io_state =
  readline_importable :: bool  \<comment> \<open>does \<^verbatim>\<open>import readline\<close> succeed\<close>
  readline_completer :: completer  \<comment> \<open>what \<^verbatim>\<open>readline.get_completer()\<close> returns\<close>
  sys_stdout :: stream  \<comment> \<open>\<^verbatim>\<open>sys.stdout\<close>\<close>
  sys_dunder_stdout :: stream  \<comment> \<open>\<^verbatim>\<open>sys.__stdout__\<close>\<close>

text \<open>
  What \<^verbatim>\<open>function(*args, **kwargs)\<close> does when the wrapper calls it: it receives the
  positional and the keyword arguments, runs on the state every call of the closure
  shares (the dict in the cell \<^verbatim>\<open>decorator_args\<close> and the I/O state), and returns a value
  or raises.
\<close>

type_synonym ('a, 'e, 'r) pyfunction =
  "'a list \<Rightarrow> (string \<times> 'a) list \<Rightarrow> config \<Rightarrow> io_state \<Rightarrow> ('e + 'r) \<times> config \<times> io_state"

text \<open>
  What can leave the wrapper as an exception: a failure of its own code (a key missing
  from \<^verbatim>\<open>decorator_args\<close>, a local name read before it is bound) or the exception the
  decorated function raised.
\<close>

datatype 'e call_error = KeyError string | UnboundLocalError string | Raised 'e

text \<open>The accesses of the wrapper to the two entities and to the function, in order.\<close>

datatype 'a event =
    ImportReadline
  | GetCompleter
  | SetCompleter completer
  | GetStdout
  | GetDunderStdout
  | SetStdout stream
  | CallFunction "'a list" "(string \<times> 'a) list"

subsection \<open>The wrapper\<close>

text \<open>
  The frame of one call of \<^verbatim>\<open>wrapper\<close>: the dict in the closure cell and the I/O state
  (both shared with every other call), the three local names (\<^verbatim>\<open>readline\<close> is bound by a
  successful import only) and the accesses of this call so far.
\<close>

record 'a frame =
  decorator_args :: config
  io :: io_state
  readline :: bool
  old_readline_completer :: "completer option"
  old_stdout :: "stream option"
  accesses :: "'a event list"

text \<open>
  A block of statements runs on a frame and either completes (\<open>None\<close>) or raises; the
  frame it leaves is kept in both cases.
\<close>

type_synonym ('a, 'e) block = "'a frame \<Rightarrow> 'e call_error option \<times> 'a frame"

fun and_then :: "'e call_error option \<times> 'a frame \<Rightarrow> ('a, 'e) block \<Rightarrow> 'e call_error option \<times> 'a frame" where
  "and_then (None, fr) blk = blk fr"
| "and_then (Some e, fr) blk = (Some e, fr)"

definition getitem :: "config \<Rightarrow> string \<Rightarrow> 'e call_error + bool" where
  "getitem d k = (case map_of d k of None \<Rightarrow> Inl (KeyError k) | Some v \<Rightarrow> Inr v)"

text \<open>
  \<^verbatim>\<open>if decorator_args["readline"]: try: import readline / except: decorator_args["readline"] = False\<close>
\<close>

definition import_readline :: "('a, 'e) block" where
  "import_readline fr =
     (case getitem (decorator_args fr) ''readline'' of
        Inl e \<Rightarrow> (Some e, fr)
      | Inr enabled \<Rightarrow>
          if enabled then
            (if readline_importable (io fr) then
               (None, fr\<lparr>readline := True, accesses := accesses fr @ [ImportReadline]\<rparr>)
             else
               (None, fr\<lparr>decorator_args := AList.update ''readline'' False (decorator_args fr),
                          accesses := accesses fr @ [ImportReadline]\<rparr>))
          else (None, fr))"

text \<open>
  \<^verbatim>\<open>if decorator_args["readline"]: old_readline_completer = readline.get_completer(); readline.set_completer((lambda x: x))\<close>
\<close>

definition backup_readline :: "('a, 'e) block" where
  "backup_readline fr =
     (case getitem (decorator_args fr) ''readline'' of
        Inl e \<Rightarrow> (Some e, fr)
      | Inr enabled \<Rightarrow>
          if enabled then
            (if readline fr then
               (None, fr\<lparr>old_readline_completer := Some (readline_completer (io fr)),
                          io := (io fr)\<lparr>readline_completer := IdentityLambda\<rparr>,
                          accesses := accesses fr @ [GetCompleter, SetCompleter IdentityLambda]\<rparr>)
             else (Some (UnboundLocalError ''readline''), fr))
          else (None, fr))"

text \<open>
  \<^verbatim>\<open>if decorator_args["stdout"]: old_stdout = sys.stdout; sys.stdout = sys.__stdout__\<close>
\<close>

definition backup_stdout :: "('a, 'e) block" where
  "backup_stdout fr =
     (case getitem (decorator_args fr) ''stdout'' of
        Inl e \<Rightarrow> (Some e, fr)
      | Inr enabled \<Rightarrow>
          if enabled then
            (None, fr\<lparr>old_stdout := Some (sys_stdout (io fr)),
                       io := (io fr)\<lparr>sys_stdout := sys_dunder_stdout (io fr)\<rparr>,
                       accesses := accesses fr @
                         [GetStdout, GetDunderStdout, SetStdout (sys_dunder_stdout (io fr))]\<rparr>)
          else (None, fr))"

text \<open>
  The body of \<^verbatim>\<open>try\<close>: \<^verbatim>\<open>retval = function(*args, **kwargs)\<close>. The function runs on the
  dict and the I/O state as the wrapper has them now, and the wrapper goes on with what
  the function leaves of both: the \<^verbatim>\<open>finally\<close> block reads the dict again.
\<close>

definition call_function ::
  "('a, 'e, 'r) pyfunction \<Rightarrow> 'a list \<Rightarrow> (string \<times> 'a) list \<Rightarrow> 'a frame \<Rightarrow> ('e + 'r) \<times> 'a frame" where
  "call_function function args kwargs fr =
     (case function args kwargs (decorator_args fr) (io fr) of
        (res, d, s) \<Rightarrow>
          (res, fr\<lparr>decorator_args := d, io := s,
                    accesses := accesses fr @ [CallFunction args kwargs]\<rparr>))"

text \<open>
  The \<^verbatim>\<open>finally\<close> block, first
  \<^verbatim>\<open>if decorator_args["readline"]: readline.set_completer(old_readline_completer)\<close>
\<close>

definition restore_readline :: "('a, 'e) block" where
  "restore_readline fr =
     (case getitem (decorator_args fr) ''readline'' of
        Inl e \<Rightarrow> (Some e, fr)
      | Inr enabled \<Rightarrow>
          if enabled then
            (if readline fr then
               (case old_readline_completer fr of
                  None \<Rightarrow> (Some (UnboundLocalError ''old_readline_completer''), fr)
                | Some c \<Rightarrow>
                    (None, fr\<lparr>io := (io fr)\<lparr>readline_completer := c\<rparr>,
                               accesses := accesses fr @ [SetCompleter c]\<rparr>))
             else (Some (UnboundLocalError ''readline''), fr))
          else (None, fr))"

text \<open>then \<^verbatim>\<open>if decorator_args["stdout"]: sys.stdout = old_stdout\<close>.\<close>

definition restore_stdout :: "('a, 'e) block" where
  "restore_stdout fr =
     (case getitem (decorator_args fr) ''stdout'' of
        Inl e \<Rightarrow> (Some e, fr)
      | Inr enabled \<Rightarrow>
          if enabled then
            (case old_stdout fr of
               None \<Rightarrow> (Some (UnboundLocalError ''old_stdout''), fr)
             | Some f \<Rightarrow>
                 (None, fr\<lparr>io := (io fr)\<lparr>sys_stdout := f\<rparr>,
                            accesses := accesses fr @ [SetStdout f]\<rparr>))
          else (None, fr))"

text \<open>
  One call of the wrapped function, from the content of the cell and the I/O state. The
  statements before \<^verbatim>\<open>try\<close> are outside it: an exception there leaves at once. The
  \<^verbatim>\<open>finally\<close> block runs whether the function returned or raised; an exception of the block
  itself replaces the pending one; otherwise the pending exception is raised again, or
  \<^verbatim>\<open>retval\<close> is returned. The frame returned holds the cell, the I/O state and the
  accesses as the call leaves them.
\<close>

definition wrapper ::
  "('a, 'e, 'r) pyfunction \<Rightarrow> config \<Rightarrow> 'a list \<Rightarrow> (string \<times> 'a) list \<Rightarrow> io_state
     \<Rightarrow> ('e call_error + 'r) \<times> 'a frame" where
  "wrapper function cell_content args kwargs s =
     (case and_then (and_then (import_readline
              \<lparr>decorator_args = cell_content, io = s, readline = False,
               old_readline_completer = None, old_stdout = None, accesses = []\<rparr>)
            backup_readline) backup_stdout of
        (Some e, fr) \<Rightarrow> (Inl e, fr)
      | (None, fr) \<Rightarrow>
          (case call_function function args kwargs fr of
             (res, fr1) \<Rightarrow>
               (case and_then (restore_readline fr1) restore_stdout of
                  (Some e, fr2) \<Rightarrow> (Inl e, fr2)
                | (None, fr2) \<Rightarrow>
                    (case res of
                       Inl x \<Rightarrow> (Inl (Raised x), fr2)
                     | Inr retval \<Rightarrow> (Inr retval, fr2)))))"

subsection \<open>Decorated functions\<close>

text \<open>
  The code of a decorated function, as far as the two entities and the closure are
  concerned. It reads and writes the I/O state (it may install a completer, reassign
  \<^verbatim>\<open>sys.stdout\<close>, or make \<^verbatim>\<open>import readline\<close> fail or succeed from then on), and it may call
  a callable wrapped by the same decorator (the wrapped function again, or another one):
  \<open>Reenter f args kwargs k\<close> is such a nested call, where \<open>f\<close> is the code the nested wrapper
  runs and \<open>k\<close> the code that follows, given the value the nested call returned or the
  exception it raised. The dict in the cell is reached through such calls only. The code
  is a well-founded tree: every run of it ends.
\<close>

datatype ('a, 'e, 'r) body =
    Finish "'e + 'r"
  | Read "io_state \<Rightarrow> ('a, 'e, 'r) body"
  | Write "io_state \<Rightarrow> io_state" "('a, 'e, 'r) body"
  | Reenter "'a list \<Rightarrow> (string \<times> 'a) list \<Rightarrow> ('a, 'e, 'r) body"
      "'a list" "(string \<times> 'a) list" "'e call_error + 'r \<Rightarrow> ('a, 'e, 'r) body"

text \<open>
  Running the code: a nested call is a run of \<^verbatim>\<open>wrapper\<close> on the same dict and the same
  I/O state, and the code goes on from the dict and the I/O state that call leaves.
\<close>

primrec exec :: "('a, 'e, 'r) body \<Rightarrow> config \<Rightarrow> io_state \<Rightarrow> ('e + 'r) \<times> config \<times> io_state" where
  "exec (Finish res) d s = (res, d, s)"
| "exec (Read k) d s = exec (k s) d s"
| "exec (Write g b) d s = exec b d (g s)"
| "exec (Reenter f args kwargs k) d s =
     (case wrapper (\<lambda>a kw. exec (f a kw)) d args kwargs s of
        (res, fr) \<Rightarrow> exec (k res) (decorator_args fr) (io fr))"

definition run_function ::
  "('a list \<Rightarrow> (string \<times> 'a) list \<Rightarrow> ('a, 'e, 'r) body) \<Rightarrow> ('a, 'e, 'r) pyfunction" where
  "run_function f args kwargs = exec (f args kwargs)"

text \<open>Classification of the accesses.\<close>

fun is_call :: "'a event \<Rightarrow> bool" where
  "is_call (CallFunction args kwargs) = True"
| "is_call e = False"

fun on_readline :: "'a event \<Rightarrow> bool" where
  "on_readline ImportReadline = True"
| "on_readline GetCompleter = True"
| "on_readline (SetCompleter c) = True"
| "on_readline e = False"

fun on_stdout :: "'a event \<Rightarrow> bool" where
  "on_stdout GetStdout = True"
| "on_stdout GetDunderStdout = True"
| "on_stdout (SetStdout f) = True"
| "on_stdout e = False"

section \<open>Properties of the validation\<close>

subsection \<open>The loop\<close>

text \<open>
  Entries with a recognised key and a \<^verbatim>\<open>bool\<close> value are stored and the loop goes on.
\<close>

lemma set_entities_accepted_prefix:
  "\<forall>(k, v) \<in> set pre. k \<in> set IO_ENTITIES \<and> (\<exists>b. v = PyBool b) \<Longrightarrow>
   \<exists>arguments'. set_entities (pre @ rest) arguments = set_entities rest arguments'"
  by (induction pre arbitrary: arguments) auto

text \<open>The loop raises at the first entry that is not of that kind, and for that entry.\<close>

lemma set_entities_first_rejected:
  assumes "\<forall>(k, v) \<in> set pre. k \<in> set IO_ENTITIES \<and> (\<exists>b. v = PyBool b)"
    and "\<not> (key \<in> set IO_ENTITIES \<and> (\<exists>b. value = PyBool b))"
  shows "set_entities (pre @ (key, value) # post) arguments =
     (if key \<notin> set IO_ENTITIES then Inl (TypeError ''invalid io entity: %r'' [PyStr key])
      else Inl (TypeError ''%s=%r: boolean expected'' [PyStr key, value]))"
proof -
  obtain arguments' where
    "set_entities (pre @ (key, value) # post) arguments =
       set_entities ((key, value) # post) arguments'"
    using set_entities_accepted_prefix [OF assms(1)] by blast
  with assms(2) show ?thesis
    by (cases "value") auto
qed

lemma set_entities_accepts:
  assumes "\<forall>(k, v) \<in> set kwargs. k \<in> set IO_ENTITIES \<and> (\<exists>b. v = PyBool b)"
  shows "\<exists>result. set_entities kwargs arguments = Inr result"
  using set_entities_accepted_prefix [OF assms, of "[]" arguments] by simp

text \<open>When the loop completes, the keys of \<^verbatim>\<open>arguments\<close> are those it started with and those of the input.\<close>

lemma set_entities_keys:
  "set_entities kwargs arguments = Inr result \<Longrightarrow>
   fst ` set result = fst ` set arguments \<union> fst ` set kwargs"
proof (induction kwargs arbitrary: arguments)
  case Nil
  then show ?case by simp
next
  case (Cons kv kwargs)
  obtain key "value" where kv: "kv = (key, value)" by (cases kv)
  from Cons.prems kv obtain b where b: "value = PyBool b"
    and rest: "set_entities kwargs (AList.update key b arguments) = Inr result"
    by (cases "value") (auto split: if_splits)
  from Cons.IH [OF rest] show ?case
    by (auto simp: kv dom_update)
qed

text \<open>A validated configuration has an entry for both entities: the wrapper's lookups find their keys.\<close>

lemma validated_config_keys:
  assumes "init_decorator_args kwargs = Inr cfg"
  shows "\<exists>r so. map_of cfg ''readline'' = Some r \<and> map_of cfg ''stdout'' = Some so"
proof -
  have "set (map fst cfg) = set IO_ENTITIES"
    using assms by (auto simp: init_decorator_args_def IO_ENTITIES_def split: if_splits sum.splits)
  then have "''readline'' \<in> fst ` set cfg" "''stdout'' \<in> fst ` set cfg"
    by (simp_all add: IO_ENTITIES_def)
  then show ?thesis
    by (metis domD dom_map_of_conv_image_fst)
qed

subsection \<open>The empty configuration\<close>

text \<open>
  Claim C7. For the empty input configuration the validation succeeds, and the
  configuration it returns maps every recognised entity to true: it is
  \<^verbatim>\<open>{readline: True, stdout: True}\<close>.
\<close>

theorem empty_config_enables_all:
  "init_decorator_args [] = Inr [(''readline'', True), (''stdout'', True)]"
  by (simp add: init_decorator_args_def IO_ENTITIES_def)

subsection \<open>An unrecognised key\<close>

text \<open>
  The loop examines the entries in order and raises at the first one it rejects. With
  \<^verbatim>\<open>readline="yes"\<close> before the unrecognised \<^verbatim>\<open>foo=True\<close>, the exception is the one for the
  value of \<^verbatim>\<open>readline\<close>, and \<^verbatim>\<open>foo\<close> is not named.
\<close>

theorem invalid_entity_after_bad_value_counterexample:
  "''foo'' \<notin> set IO_ENTITIES
   \<and> init_decorator_args [(''readline'', PyStr ''yes''), (''foo'', PyBool True)]
       = Inl (TypeError ''%s=%r: boolean expected'' [PyStr ''readline'', PyStr ''yes''])
   \<and> init_decorator_args [(''readline'', PyStr ''yes''), (''foo'', PyBool True)]
       \<noteq> Inl (TypeError ''invalid io entity: %r'' [PyStr ''foo''])"
  by (simp add: init_decorator_args_def IO_ENTITIES_def)

text \<open>
  Claim C4, amended. Let \<open>key\<close> be the first key of a configuration that is not a
  recognised entity name (every key in \<open>pre\<close>, the entries before it, is recognised). The
  validation fails with a \<^verbatim>\<open>TypeError\<close>. When every value in \<open>pre\<close> is a \<^verbatim>\<open>bool\<close>, it is the
  invalid-entity error naming \<open>key\<close>, whatever the entries after it hold (also a recognised
  key with a value that is no \<^verbatim>\<open>bool\<close>). Otherwise it is the boolean-expected error of an
  entry of \<open>pre\<close> whose value is no \<^verbatim>\<open>bool\<close>.
\<close>

theorem invalid_entity_reported_when_first:
  assumes kw: "kwargs = pre @ (key, value) # post"
    and key: "key \<notin> set IO_ENTITIES"
    and first: "\<forall>(k, v) \<in> set pre. k \<in> set IO_ENTITIES"
  shows "if \<forall>(k, v) \<in> set pre. \<exists>b. v = PyBool b
         then init_decorator_args kwargs = Inl (TypeError ''invalid io entity: %r'' [PyStr key])
         else \<exists>(k, v) \<in> set pre. (\<nexists>b. v = PyBool b) \<and>
                init_decorator_args kwargs =
                  Inl (TypeError ''%s=%r: boolean expected'' [PyStr k, v])"
proof (cases "\<forall>(k, v) \<in> set pre. \<exists>b. v = PyBool b")
  case True
  with first have "\<forall>(k, v) \<in> set pre. k \<in> set IO_ENTITIES \<and> (\<exists>b. v = PyBool b)"
    by auto
  from set_entities_first_rejected [OF this, of key "value" post "[]"] key kw True
  show ?thesis
    by (simp add: init_decorator_args_def)
next
  case False
  then have "\<exists>x \<in> set pre. \<not> (\<exists>b. snd x = PyBool b)"
    by force
  then obtain ys x zs where pre: "pre = ys @ x # zs"
    and x: "\<not> (\<exists>b. snd x = PyBool b)"
    and ys: "\<forall>y \<in> set ys. \<not> \<not> (\<exists>b. snd y = PyBool b)"
    using split_list_first_prop [of pre "\<lambda>x. \<not> (\<exists>b. snd x = PyBool b)"] by blast
  obtain k v where kv: "x = (k, v)" by (cases x)
  have good: "\<forall>(k, v) \<in> set ys. k \<in> set IO_ENTITIES \<and> (\<exists>b. v = PyBool b)"
    using ys first pre by auto
  have k: "k \<in> set IO_ENTITIES"
    using first pre kv by auto
  have "set_entities (ys @ (k, v) # (zs @ (key, value) # post)) [] =
          Inl (TypeError ''%s=%r: boolean expected'' [PyStr k, v])"
    using set_entities_first_rejected [OF good, of k v] x kv k by simp
  then have "init_decorator_args kwargs =
      Inl (TypeError ''%s=%r: boolean expected'' [PyStr k, v])"
    by (simp add: init_decorator_args_def kw pre kv)
  moreover have "(k, v) \<in> set pre" "\<nexists>b. v = PyBool b"
    using pre kv x by auto
  ultimately show ?thesis
    using False by (auto simp del: split_paired_Ex)
qed

theorem invalid_entity_reported_when_first_witness:
  "''stdin'' \<notin> set IO_ENTITIES
   \<and> init_decorator_args
        [(''stdout'', PyBool True), (''stdin'', PyBool True), (''readline'', PyStr ''yes'')]
       = Inl (TypeError ''invalid io entity: %r'' [PyStr ''stdin''])"
proof -
  have some_bool: "\<exists>b::bool. b"
    by blast
  show ?thesis
    using invalid_entity_reported_when_first
      [of "[(''stdout'', PyBool True), (''stdin'', PyBool True), (''readline'', PyStr ''yes'')]"
          "[(''stdout'', PyBool True)]" "''stdin''" "PyBool True" "[(''readline'', PyStr ''yes'')]"]
    by (simp add: IO_ENTITIES_def some_bool)
qed

subsection \<open>A partial configuration\<close>

text \<open>
  Claim C5. For every non-empty input configuration whose keys are all recognised entity
  names with \<^verbatim>\<open>bool\<close> values, but which omits at least one recognised entity, the
  validation fails with the \<^verbatim>\<open>ValueError\<close> for an incomplete configuration. The failure is
  that of \<^verbatim>\<open>isolate_io_context\<close> itself, at decoration time: no decorator is returned, so no
  wrapped call can occur.
\<close>

theorem partial_config_rejected:
  assumes "kwargs \<noteq> []"
    and "\<forall>(k, v) \<in> set kwargs. k \<in> set IO_ENTITIES \<and> (\<exists>b. v = PyBool b)"
    and "\<not> set IO_ENTITIES \<subseteq> fst ` set kwargs"
  shows "init_decorator_args kwargs =
           Inl (ValueError ''all IO_ENTITIES must be explicitly provided'' [])
    \<and> isolate_io_context kwargs =
           Inl (ValueError ''all IO_ENTITIES must be explicitly provided'' [])"
proof -
  obtain arguments where args: "set_entities kwargs [] = Inr arguments"
    using set_entities_accepts [OF assms(2)] by blast
  have "fst ` set arguments = fst ` set kwargs"
    using set_entities_keys [OF args] by simp
  with assms(3) have "set (map fst arguments) \<noteq> set IO_ENTITIES"
    by auto
  with args assms(1) show ?thesis
    by (simp add: init_decorator_args_def isolate_io_context_def)
qed

theorem partial_config_rejected_witness:
  "init_decorator_args [(''readline'', PyBool False)] =
     Inl (ValueError ''all IO_ENTITIES must be explicitly provided'' [])
   \<and> isolate_io_context [(''readline'', PyBool False)] =
     Inl (ValueError ''all IO_ENTITIES must be explicitly provided'' [])"
  using partial_config_rejected [of "[(''readline'', PyBool False)]"]
  by (auto simp: IO_ENTITIES_def)

subsection \<open>A value that is no boolean\<close>

text \<open>
  With the unrecognised \<^verbatim>\<open>foo=True\<close> before \<^verbatim>\<open>readline=1\<close>, the exception is the one for the
  key \<^verbatim>\<open>foo\<close>: neither \<^verbatim>\<open>readline\<close> nor its value is named.
\<close>

theorem bad_value_after_invalid_entity_counterexample:
  "''readline'' \<in> set IO_ENTITIES
   \<and> init_decorator_args [(''foo'', PyBool True), (''readline'', PyInt 1)]
       = Inl (TypeError ''invalid io entity: %r'' [PyStr ''foo''])
   \<and> init_decorator_args [(''foo'', PyBool True), (''readline'', PyInt 1)]
       \<noteq> Inl (TypeError ''%s=%r: boolean expected'' [PyStr ''readline'', PyInt 1])"
  by (simp add: init_decorator_args_def IO_ENTITIES_def)

text \<open>
  Claim C6, amended. Let \<open>(key, value)\<close> be the first entry of a configuration with a
  recognised key and a value that is no \<^verbatim>\<open>bool\<close> (such as the string \<^verbatim>\<open>"yes"\<close> or the
  integers 0 and 1). The validation fails with a \<^verbatim>\<open>TypeError\<close>. When every key in \<open>pre\<close>, the
  entries before it, is recognised, it is the boolean-expected error naming \<open>key\<close> and
  \<open>value\<close>. Otherwise it is the invalid-entity error of an unrecognised key of \<open>pre\<close>.
\<close>

theorem bad_value_reported_when_first:
  assumes kw: "kwargs = pre @ (key, value) # post"
    and key: "key \<in> set IO_ENTITIES"
    and val: "\<nexists>b. value = PyBool b"
    and first: "\<forall>(k, v) \<in> set pre. k \<in> set IO_ENTITIES \<longrightarrow> (\<exists>b. v = PyBool b)"
  shows "if \<forall>(k, v) \<in> set pre. k \<in> set IO_ENTITIES
         then init_decorator_args kwargs =
                Inl (TypeError ''%s=%r: boolean expected'' [PyStr key, value])
         else \<exists>(k, v) \<in> set pre. k \<notin> set IO_ENTITIES \<and>
                init_decorator_args kwargs = Inl (TypeError ''invalid io entity: %r'' [PyStr k])"
proof (cases "\<forall>(k, v) \<in> set pre. k \<in> set IO_ENTITIES")
  case True
  with first have "\<forall>(k, v) \<in> set pre. k \<in> set IO_ENTITIES \<and> (\<exists>b. v = PyBool b)"
    by auto
  from set_entities_first_rejected [OF this, of key "value" post "[]"] key val kw True
  show ?thesis
    by (simp add: init_decorator_args_def)
next
  case False
  then have "\<exists>x \<in> set pre. fst x \<notin> set IO_ENTITIES"
    by force
  then obtain ys x zs where pre: "pre = ys @ x # zs"
    and x: "fst x \<notin> set IO_ENTITIES"
    and ys: "\<forall>y \<in> set ys. \<not> fst y \<notin> set IO_ENTITIES"
    using split_list_first_prop [of pre "\<lambda>x. fst x \<notin> set IO_ENTITIES"] by blast
  obtain k v where kv: "x = (k, v)" by (cases x)
  have good: "\<forall>(k, v) \<in> set ys. k \<in> set IO_ENTITIES \<and> (\<exists>b. v = PyBool b)"
  proof (clarify, rule conjI)
    fix a b assume ab: "(a, b) \<in> set ys"
    with ys show a: "a \<in> set IO_ENTITIES" by force
    from ab pre have "(a, b) \<in> set pre" by simp
    with first a show "\<exists>c. b = PyBool c" by blast
  qed
  have "set_entities (ys @ (k, v) # (zs @ (key, value) # post)) [] =
          Inl (TypeError ''invalid io entity: %r'' [PyStr k])"
    using set_entities_first_rejected [OF good, of k v] x kv by simp
  then have "init_decorator_args kwargs = Inl (TypeError ''invalid io entity: %r'' [PyStr k])"
    by (simp add: init_decorator_args_def kw pre kv)
  moreover have "(k, v) \<in> set pre" "k \<notin> set IO_ENTITIES"
    using pre kv x by auto
  ultimately show ?thesis
    using False by (auto simp del: split_paired_Ex)
qed

theorem bad_value_reported_when_first_witness:
  "''stdout'' \<in> set IO_ENTITIES
   \<and> init_decorator_args [(''readline'', PyBool True), (''stdout'', PyStr ''yes'')]
       = Inl (TypeError ''%s=%r: boolean expected'' [PyStr ''stdout'', PyStr ''yes''])"
  using bad_value_reported_when_first
    [of "[(''readline'', PyBool True), (''stdout'', PyStr ''yes'')]"
        "[(''readline'', PyBool True)]" "''stdout''" "PyStr ''yes''" "[]"]
  by (auto simp: IO_ENTITIES_def)


section \<open>Properties of the wrapper\<close>

subsection \<open>One call, step by step\<close>

text \<open>
  The dict has both keys, \<open>r\<close> for \<^verbatim>\<open>readline\<close> and \<open>so\<close> for \<^verbatim>\<open>stdout\<close>, as a validated
  configuration has. The function is any transformer of the shared state that leaves both
  keys in the dict and does not enable an entity: then no lookup of the wrapper fails and
  no local name is read unbound, and the call ends in the frame below.
\<close>

lemma wrapper_on_valid_cell:
  assumes rl: "map_of cfg ''readline'' = Some r"
    and so: "map_of cfg ''stdout'' = Some so"
    and f: "function args kwargs
           (if r \<and> \<not> readline_importable s then AList.update ''readline'' False cfg else cfg)
           (s\<lparr>readline_completer :=
                 (if r \<and> readline_importable s then IdentityLambda else readline_completer s),
              sys_stdout := (if so then sys_dunder_stdout s else sys_stdout s)\<rparr>)
           = (res, d_out, s_out)"
    and rl_out: "map_of d_out ''readline'' = Some r_out"
    and so_out: "map_of d_out ''stdout'' = Some so"
    and only_off: "r_out \<longrightarrow> r \<and> readline_importable s"
  shows "wrapper function cfg args kwargs s =
     (case res of Inl x \<Rightarrow> Inl (Raised x) | Inr retval \<Rightarrow> Inr retval,
      \<lparr>decorator_args = d_out,
       io = s_out\<lparr>readline_completer :=
                    (if r_out then readline_completer s else readline_completer s_out),
                  sys_stdout := (if so then sys_stdout s else sys_stdout s_out)\<rparr>,
       readline = (r \<and> readline_importable s),
       old_readline_completer =
         (if r \<and> readline_importable s then Some (readline_completer s) else None),
       old_stdout = (if so then Some (sys_stdout s) else None),
       accesses = (if r then [ImportReadline] else []) @
         (if r \<and> readline_importable s then [GetCompleter, SetCompleter IdentityLambda] else []) @
         (if so then [GetStdout, GetDunderStdout, SetStdout (sys_dunder_stdout s)] else []) @
         [CallFunction args kwargs] @
         (if r_out then [SetCompleter (readline_completer s)] else []) @
         (if so then [SetStdout (sys_stdout s)] else [])\<rparr>)"
proof (cases r; cases so; cases "readline_importable s"; cases r_out)
qed (use rl so f rl_out so_out only_off in \<open>simp_all add: wrapper_def import_readline_def
      backup_readline_def backup_stdout_def call_function_def restore_readline_def
      restore_stdout_def getitem_def update_conv' split: sum.splits\<close>)

text \<open>
  The code of a function changes the dict through nested calls only, and the one
  statement of \<^verbatim>\<open>wrapper\<close> that writes the dict is the assignment of \<^verbatim>\<open>False\<close> to its
  \<^verbatim>\<open>readline\<close> entry: a run leaves the dict as it was, or with \<^verbatim>\<open>readline\<close> disabled.
\<close>

lemma exec_only_downgrades:
  assumes "map_of d ''readline'' = Some r" and "map_of d ''stdout'' = Some so"
  shows "fst (snd (exec b d s)) = d \<or> fst (snd (exec b d s)) = AList.update ''readline'' False d"
  using assms
proof (induction b arbitrary: d s r)
  case (Finish x)
  then show ?case by simp
next
  case (Read k)
  then show ?case by simp
next
  case (Write g b)
  then show ?case by simp
next
  case (Reenter f args kwargs k)
  let ?d_in = "if r \<and> \<not> readline_importable s then AList.update ''readline'' False d else d"
  let ?s_in = "s\<lparr>readline_completer :=
                 (if r \<and> readline_importable s then IdentityLambda else readline_completer s),
              sys_stdout := (if so then sys_dunder_stdout s else sys_stdout s)\<rparr>"
  obtain res1 d1 s1 where run: "exec (f args kwargs) ?d_in ?s_in = (res1, d1, s1)"
    by (metis prod_cases3)
  have in_rl: "map_of ?d_in ''readline'' = Some (r \<and> readline_importable s)"
    using Reenter.prems by (auto simp: update_conv')
  have in_so: "map_of ?d_in ''stdout'' = Some so"
    using Reenter.prems by (auto simp: update_conv')
  have d1: "d1 = ?d_in \<or> d1 = AList.update ''readline'' False ?d_in"
    using Reenter.IH(1) [OF _ _ in_rl in_so, of "f args" "f args kwargs" ?s_in] run
    by auto
  have so1: "map_of d1 ''stdout'' = Some so"
    using d1 in_so by (auto simp: update_conv' simp del: map_of_eq_Some_iff)
  have "\<exists>r1. map_of d1 ''readline'' = Some r1 \<and> (r1 \<longrightarrow> r \<and> readline_importable s)"
  proof (cases "d1 = ?d_in")
    case True
    with in_rl show ?thesis by simp
  next
    case False
    with d1 have "map_of d1 ''readline'' = Some False"
      by (simp add: update_conv')
    then show ?thesis by (intro exI [of _ False]) simp
  qed
  then obtain r1 where r1: "map_of d1 ''readline'' = Some r1" "r1 \<longrightarrow> r \<and> readline_importable s"
    by blast
  have d1d: "d1 = d \<or> d1 = AList.update ''readline'' False d"
    using d1 by (auto split: if_splits)
  note w = wrapper_on_valid_cell [of d r so "\<lambda>a kw. exec (f a kw)" args kwargs s res1 d1 s1 r1,
      OF Reenter.prems(1,2) run r1(1) so1 r1(2)]
  have "fst (snd (exec (Reenter f args kwargs k) d s)) =
      fst (snd (exec (k (case res1 of Inl x \<Rightarrow> Inl (Raised x) | Inr retval \<Rightarrow> Inr retval)) d1
        (s1\<lparr>readline_completer := (if r1 then readline_completer s else readline_completer s1),
            sys_stdout := (if so then sys_stdout s else sys_stdout s1)\<rparr>)))"
    by (simp add: w)
  moreover have "fst (snd (exec (k res') d1 s')) = d1 \<or>
      fst (snd (exec (k res') d1 s')) = AList.update ''readline'' False d1" for res' s'
    using Reenter.IH(2) [OF _ r1(1) so1, of "k res'" s'] by auto
  ultimately show ?case
    using d1d by (metis update_last)
qed


text \<open>
  One call of a wrapped function on a dict with both keys: the function's code runs on
  the dict after the import and on the I/O state with the overrides, and leaves \<open>d_out\<close> and
  \<open>s_out\<close>. The \<^verbatim>\<open>finally\<close> block restores the completer if \<open>d_out\<close> has \<^verbatim>\<open>readline\<close> enabled,
  and \<^verbatim>\<open>sys.stdout\<close> if \<^verbatim>\<open>stdout\<close> is enabled.
\<close>

lemma wrapper_runs_body:
  assumes rl: "map_of cfg ''readline'' = Some r"
    and so: "map_of cfg ''stdout'' = Some so"
    and run: "exec (function args kwargs)
           (if r \<and> \<not> readline_importable s then AList.update ''readline'' False cfg else cfg)
           (s\<lparr>readline_completer :=
                 (if r \<and> readline_importable s then IdentityLambda else readline_completer s),
              sys_stdout := (if so then sys_dunder_stdout s else sys_stdout s)\<rparr>)
           = (res, d_out, s_out)"
  shows "wrapper (run_function function) cfg args kwargs s =
     (case res of Inl x \<Rightarrow> Inl (Raised x) | Inr retval \<Rightarrow> Inr retval,
      \<lparr>decorator_args = d_out,
       io = s_out\<lparr>readline_completer :=
                    (if map_of d_out ''readline'' = Some True then readline_completer s
                     else readline_completer s_out),
                  sys_stdout := (if so then sys_stdout s else sys_stdout s_out)\<rparr>,
       readline = (r \<and> readline_importable s),
       old_readline_completer =
         (if r \<and> readline_importable s then Some (readline_completer s) else None),
       old_stdout = (if so then Some (sys_stdout s) else None),
       accesses = (if r then [ImportReadline] else []) @
         (if r \<and> readline_importable s then [GetCompleter, SetCompleter IdentityLambda] else []) @
         (if so then [GetStdout, GetDunderStdout, SetStdout (sys_dunder_stdout s)] else []) @
         [CallFunction args kwargs] @
         (if map_of d_out ''readline'' = Some True then [SetCompleter (readline_completer s)]
          else []) @
         (if so then [SetStdout (sys_stdout s)] else [])\<rparr>)"
    and "d_out = (if r \<and> \<not> readline_importable s then AList.update ''readline'' False cfg else cfg)
       \<or> d_out = AList.update ''readline'' False cfg"
    and "map_of d_out ''stdout'' = Some so"
    and "map_of d_out ''readline'' = Some True \<longleftrightarrow>
           r \<and> readline_importable s
           \<and> d_out = (if r \<and> \<not> readline_importable s then AList.update ''readline'' False cfg else cfg)"
proof -
  let ?d_in = "(if r \<and> \<not> readline_importable s then AList.update ''readline'' False cfg else cfg)"
  have in_rl: "map_of ?d_in ''readline'' = Some (r \<and> readline_importable s)"
    using rl by (auto simp: update_conv')
  have in_so: "map_of ?d_in ''stdout'' = Some so"
    using so by (auto simp: update_conv')
  have "d_out = ?d_in \<or> d_out = AList.update ''readline'' False ?d_in"
    using exec_only_downgrades [OF in_rl in_so, of "function args kwargs"] run
    by (metis fst_conv snd_conv)
  then show d: "d_out = ?d_in \<or> d_out = AList.update ''readline'' False cfg"
    by (auto split: if_splits)
  show so_out: "map_of d_out ''stdout'' = Some so"
    using d so by (auto simp: update_conv' simp del: map_of_eq_Some_iff split: if_splits)
  show iff: "map_of d_out ''readline'' = Some True \<longleftrightarrow>
      r \<and> readline_importable s \<and> d_out = ?d_in"
    using d rl in_rl by (auto simp: update_conv' simp del: map_of_eq_Some_iff split: if_splits)
  have "\<exists>b. map_of d_out ''readline'' = Some b"
    using d rl by (auto simp: update_conv' simp del: map_of_eq_Some_iff split: if_splits)
  then have rl_out: "map_of d_out ''readline'' = Some (map_of d_out ''readline'' = Some True)"
    by auto
  have f: "run_function function args kwargs ?d_in
           (s\<lparr>readline_completer :=
                 (if r \<and> readline_importable s then IdentityLambda else readline_completer s),
              sys_stdout := (if so then sys_dunder_stdout s else sys_stdout s)\<rparr>)
           = (res, d_out, s_out)"
    using run by (simp add: run_function_def)
  from wrapper_on_valid_cell [of cfg r so "run_function function" args kwargs s res d_out s_out
      "map_of d_out ''readline'' = Some True", OF rl so f rl_out so_out] iff
  show "wrapper (run_function function) cfg args kwargs s =
     (case res of Inl x \<Rightarrow> Inl (Raised x) | Inr retval \<Rightarrow> Inr retval,
      \<lparr>decorator_args = d_out,
       io = s_out\<lparr>readline_completer :=
                    (if map_of d_out ''readline'' = Some True then readline_completer s
                     else readline_completer s_out),
                  sys_stdout := (if so then sys_stdout s else sys_stdout s_out)\<rparr>,
       readline = (r \<and> readline_importable s),
       old_readline_completer =
         (if r \<and> readline_importable s then Some (readline_completer s) else None),
       old_stdout = (if so then Some (sys_stdout s) else None),
       accesses = (if r then [ImportReadline] else []) @
         (if r \<and> readline_importable s then [GetCompleter, SetCompleter IdentityLambda] else []) @
         (if so then [GetStdout, GetDunderStdout, SetStdout (sys_dunder_stdout s)] else []) @
         [CallFunction args kwargs] @
         (if map_of d_out ''readline'' = Some True then [SetCompleter (readline_completer s)]
          else []) @
         (if so then [SetStdout (sys_stdout s)] else [])\<rparr>)"
    by blast
qed

subsection \<open>Calling convention\<close>

text \<open>
  Claim C3. For every function, every argument list and every validated configuration,
  the wrapped callable calls the function exactly once, with the positional and keyword
  arguments it received. It returns the function's return value as it is; if the function
  raises, the wrapped callable raises that same exception. In both cases the \<^verbatim>\<open>finally\<close>
  block has run by then: its writes follow the call in the accesses, \<^verbatim>\<open>sys.stdout\<close> is
  restored if \<^verbatim>\<open>stdout\<close> is enabled, and the completer is restored if the dict the function
  left has \<^verbatim>\<open>readline\<close> enabled.
\<close>

theorem wrapper_calls_function_once:
  assumes "map_of cfg ''readline'' = Some r"
    and "map_of cfg ''stdout'' = Some so"
    and "exec (function args kwargs)
           (if r \<and> \<not> readline_importable s then AList.update ''readline'' False cfg else cfg)
           (s\<lparr>readline_completer :=
                 (if r \<and> readline_importable s then IdentityLambda else readline_completer s),
              sys_stdout := (if so then sys_dunder_stdout s else sys_stdout s)\<rparr>)
           = (res, d_out, s_out)"
  shows "fst (wrapper (run_function function) cfg args kwargs s) =
           (case res of Inl x \<Rightarrow> Inl (Raised x) | Inr retval \<Rightarrow> Inr retval)
    \<and> filter is_call (accesses (snd (wrapper (run_function function) cfg args kwargs s))) =
           [CallFunction args kwargs]
    \<and> accesses (snd (wrapper (run_function function) cfg args kwargs s)) =
         (if r then [ImportReadline] else []) @
         (if r \<and> readline_importable s then [GetCompleter, SetCompleter IdentityLambda] else []) @
         (if so then [GetStdout, GetDunderStdout, SetStdout (sys_dunder_stdout s)] else []) @
         [CallFunction args kwargs] @
         (if map_of d_out ''readline'' = Some True then [SetCompleter (readline_completer s)]
          else []) @
         (if so then [SetStdout (sys_stdout s)] else [])
    \<and> (map_of d_out ''readline'' = Some True \<longrightarrow>
          readline_completer (io (snd (wrapper (run_function function) cfg args kwargs s))) =
            readline_completer s)
    \<and> (so \<longrightarrow>
          sys_stdout (io (snd (wrapper (run_function function) cfg args kwargs s))) =
            sys_stdout s)"
  using wrapper_runs_body(1) [of cfg r so "function" args kwargs s res d_out s_out, OF assms]
  by simp

theorem wrapper_calls_function_once_witness:
  "fst (wrapper (run_function (\<lambda>a k. Finish (Inr (a, k)) :: (nat, string, nat list \<times> (string \<times> nat) list) body))
       [(''readline'', True), (''stdout'', True)] [1, 2] [(''n'', 3)]
       \<lparr>readline_importable = True, readline_completer = Completer 1,
        sys_stdout = Stream 2, sys_dunder_stdout = Stream 0\<rparr>) = Inr ([1, 2], [(''n'', 3)])
   \<and> filter is_call (accesses (snd (wrapper (run_function (\<lambda>a k. Finish (Inr (a, k)) :: (nat, string, nat list \<times> (string \<times> nat) list) body))
       [(''readline'', True), (''stdout'', True)] [1, 2] [(''n'', 3)]
       \<lparr>readline_importable = True, readline_completer = Completer 1,
        sys_stdout = Stream 2, sys_dunder_stdout = Stream 0\<rparr>))) = [CallFunction [1, 2] [(''n'', 3)]]"
  using wrapper_calls_function_once [of "[(''readline'', True), (''stdout'', True)]" True True
      "(\<lambda>a k. Finish (Inr (a, k)) :: (nat, string, nat list \<times> (string \<times> nat) list) body)" "[1, 2]" "[(''n'', 3)]"
      "\<lparr>readline_importable = True, readline_completer = Completer 1,
        sys_stdout = Stream 2, sys_dunder_stdout = Stream 0\<rparr>"
      "Inr ([1, 2], [(''n'', 3)])"
      "[(''readline'', True), (''stdout'', True)]"
      "\<lparr>readline_importable = True, readline_completer = IdentityLambda,
        sys_stdout = Stream 0, sys_dunder_stdout = Stream 0\<rparr>"]
  by simp

subsection \<open>Restoration\<close>




text \<open>
  The same nested call, in a function that afterwards installs a completer of its own and
  reassigns \<^verbatim>\<open>sys.stdout\<close>: \<^verbatim>\<open>readline\<close> is enabled and the module available when the call
  starts, and after the call \<^verbatim>\<open>sys.stdout\<close> is restored but the completer is the one the
  function installed.
\<close>

theorem function_completer_survives_counterexample:
  "map_of [(''readline'', True), (''stdout'', True)] ''readline'' = Some True
   \<and> readline_importable \<lparr>readline_importable = True, readline_completer = Completer 1,
        sys_stdout = Stream 2, sys_dunder_stdout = Stream 0\<rparr>
   \<and> sys_stdout (io (snd (wrapper (run_function (\<lambda>a k. Write (\<lambda>s. s\<lparr>readline_importable := False\<rparr>)
                (Reenter (\<lambda>a k. Finish (Inr ())) [] []
                   (\<lambda>res. Write (\<lambda>s. s\<lparr>readline_completer := Completer 5, sys_stdout := Stream 9\<rparr>)
                      (Finish (Inr ()))))
           :: (nat, string, unit) body))
       [(''readline'', True), (''stdout'', True)] [] []
       \<lparr>readline_importable = True, readline_completer = Completer 1,
        sys_stdout = Stream 2, sys_dunder_stdout = Stream 0\<rparr>))) = Stream 2
   \<and> readline_completer (io (snd (wrapper (run_function (\<lambda>a k. Write (\<lambda>s. s\<lparr>readline_importable := False\<rparr>)
                (Reenter (\<lambda>a k. Finish (Inr ())) [] []
                   (\<lambda>res. Write (\<lambda>s. s\<lparr>readline_completer := Completer 5, sys_stdout := Stream 9\<rparr>)
                      (Finish (Inr ()))))
           :: (nat, string, unit) body))
       [(''readline'', True), (''stdout'', True)] [] []
       \<lparr>readline_importable = True, readline_completer = Completer 1,
        sys_stdout = Stream 2, sys_dunder_stdout = Stream 0\<rparr>))) = Completer 5"
  by (simp add: run_function_def wrapper_def import_readline_def backup_readline_def
      backup_stdout_def call_function_def restore_readline_def restore_stdout_def getitem_def)

text \<open>
  Claim C10, amended. The function may itself reassign \<^verbatim>\<open>sys.stdout\<close> or install another
  completer: it leaves the I/O state \<open>s_out\<close> and the dict \<open>d_out\<close>. When \<^verbatim>\<open>stdout\<close> is
  enabled, \<^verbatim>\<open>sys.stdout\<close> after the call is its value before the call, whatever \<open>s_out\<close>
  holds. When \<open>d_out\<close> still has \<^verbatim>\<open>readline\<close> enabled, the completer after the call is its
  value before the call, whatever \<open>s_out\<close> holds; and \<open>d_out\<close> has \<^verbatim>\<open>readline\<close> enabled exactly
  when \<^verbatim>\<open>readline\<close> is enabled and the module available as the call starts, and the
  function's run has left the dict as it was.
\<close>

theorem restore_overwrites_function_changes:
  assumes "map_of cfg ''readline'' = Some r"
    and "map_of cfg ''stdout'' = Some so"
    and "exec (function args kwargs)
           (if r \<and> \<not> readline_importable s then AList.update ''readline'' False cfg else cfg)
           (s\<lparr>readline_completer :=
                 (if r \<and> readline_importable s then IdentityLambda else readline_completer s),
              sys_stdout := (if so then sys_dunder_stdout s else sys_stdout s)\<rparr>)
           = (res, d_out, s_out)"
  shows "(so \<longrightarrow>
            sys_stdout (io (snd (wrapper (run_function function) cfg args kwargs s))) =
              sys_stdout s)
    \<and> (map_of d_out ''readline'' = Some True \<longrightarrow>
            readline_completer (io (snd (wrapper (run_function function) cfg args kwargs s))) =
              readline_completer s)
    \<and> (map_of d_out ''readline'' = Some True \<longleftrightarrow>
          r \<and> readline_importable s \<and> d_out = cfg)
    \<and> decorator_args (snd (wrapper (run_function function) cfg args kwargs s)) = d_out"
proof -
  have "map_of d_out ''readline'' = Some True \<longleftrightarrow> r \<and> readline_importable s \<and> d_out = cfg"
    using wrapper_runs_body(4) [of cfg r so "function" args kwargs s res d_out s_out, OF assms]
    by auto
  then show ?thesis
    using wrapper_runs_body(1) [of cfg r so "function" args kwargs s res d_out s_out, OF assms]
    by simp
qed

theorem restore_overwrites_function_changes_witness:
  "sys_stdout (io (snd (wrapper (run_function (\<lambda>a k. Write (\<lambda>s. s\<lparr>readline_completer := Completer 5, sys_stdout := Stream 9\<rparr>)
                (Finish (Inr ())) :: (nat, string, unit) body))
       [(''readline'', True), (''stdout'', True)] [] []
       \<lparr>readline_importable = True, readline_completer = Completer 1,
        sys_stdout = Stream 2, sys_dunder_stdout = Stream 0\<rparr>))) = Stream 2
   \<and> readline_completer (io (snd (wrapper (run_function (\<lambda>a k. Write (\<lambda>s. s\<lparr>readline_completer := Completer 5, sys_stdout := Stream 9\<rparr>)
                (Finish (Inr ())) :: (nat, string, unit) body))
       [(''readline'', True), (''stdout'', True)] [] []
       \<lparr>readline_importable = True, readline_completer = Completer 1,
        sys_stdout = Stream 2, sys_dunder_stdout = Stream 0\<rparr>))) = Completer 1"
  using restore_overwrites_function_changes [of "[(''readline'', True), (''stdout'', True)]" True True
      "(\<lambda>a k. Write (\<lambda>s. s\<lparr>readline_completer := Completer 5, sys_stdout := Stream 9\<rparr>)
                (Finish (Inr ())) :: (nat, string, unit) body)"
      "[]" "[]"
      "\<lparr>readline_importable = True, readline_completer = Completer 1,
        sys_stdout = Stream 2, sys_dunder_stdout = Stream 0\<rparr>"
      "Inr ()" "[(''readline'', True), (''stdout'', True)]"
      "\<lparr>readline_importable = True, readline_completer = Completer 5,
        sys_stdout = Stream 9, sys_dunder_stdout = Stream 0\<rparr>"]
  by simp

subsection \<open>Entities that are not isolated\<close>

text \<open>
  Claim C8. For every wrapped call, an entity whose isolation is disabled in the
  configuration is not accessed by the wrapper: no import of the module, no read and no
  write of the completer when \<^verbatim>\<open>readline\<close> is disabled; no read of \<^verbatim>\<open>sys.stdout\<close> or
  \<^verbatim>\<open>sys.__stdout__\<close> and no write of \<^verbatim>\<open>sys.stdout\<close> when \<^verbatim>\<open>stdout\<close> is disabled. The function
  receives the entity as it was before the call, and after the call the entity is what
  the function left (\<open>s_out\<close>): only the function may have changed it.
\<close>

theorem disabled_entity_untouched:
  assumes "map_of cfg ''readline'' = Some r"
    and "map_of cfg ''stdout'' = Some so"
    and "exec (function args kwargs)
           (if r \<and> \<not> readline_importable s then AList.update ''readline'' False cfg else cfg)
           (s\<lparr>readline_completer :=
                 (if r \<and> readline_importable s then IdentityLambda else readline_completer s),
              sys_stdout := (if so then sys_dunder_stdout s else sys_stdout s)\<rparr>)
           = (res, d_out, s_out)"
  shows "(\<not> r \<longrightarrow>
            (\<forall>e \<in> set (accesses (snd (wrapper (run_function function) cfg args kwargs s))).
               \<not> on_readline e)
          \<and> readline_completer (io (snd (wrapper (run_function function) cfg args kwargs s))) =
              readline_completer s_out)
    \<and> (\<not> so \<longrightarrow>
            (\<forall>e \<in> set (accesses (snd (wrapper (run_function function) cfg args kwargs s))).
               \<not> on_stdout e)
          \<and> sys_stdout (io (snd (wrapper (run_function function) cfg args kwargs s))) =
              sys_stdout s_out)"
  using wrapper_runs_body(1,4) [of cfg r so "function" args kwargs s res d_out s_out, OF assms]
  by auto

theorem disabled_entity_untouched_witness:
  "readline_completer (io (snd (wrapper (run_function (\<lambda>a k. Write (\<lambda>s. s\<lparr>readline_completer := Completer 5, sys_stdout := Stream 9\<rparr>)
                (Finish (Inr ())) :: (nat, string, unit) body))
       [(''readline'', False), (''stdout'', False)] [] []
       \<lparr>readline_importable = True, readline_completer = Completer 1,
        sys_stdout = Stream 2, sys_dunder_stdout = Stream 0\<rparr>))) = Completer 5
   \<and> sys_stdout (io (snd (wrapper (run_function (\<lambda>a k. Write (\<lambda>s. s\<lparr>readline_completer := Completer 5, sys_stdout := Stream 9\<rparr>)
                (Finish (Inr ())) :: (nat, string, unit) body))
       [(''readline'', False), (''stdout'', False)] [] []
       \<lparr>readline_importable = True, readline_completer = Completer 1,
        sys_stdout = Stream 2, sys_dunder_stdout = Stream 0\<rparr>))) = Stream 9"
  using disabled_entity_untouched [of "[(''readline'', False), (''stdout'', False)]" False False
      "(\<lambda>a k. Write (\<lambda>s. s\<lparr>readline_completer := Completer 5, sys_stdout := Stream 9\<rparr>)
                (Finish (Inr ())) :: (nat, string, unit) body)"
      "[]" "[]"
      "\<lparr>readline_importable = True, readline_completer = Completer 1,
        sys_stdout = Stream 2, sys_dunder_stdout = Stream 0\<rparr>"
      "Inr ()" "[(''readline'', False), (''stdout'', False)]"
      "\<lparr>readline_importable = True, readline_completer = Completer 5,
        sys_stdout = Stream 9, sys_dunder_stdout = Stream 0\<rparr>"]
  by simp

subsection \<open>No readline module\<close>

text \<open>
  Claim C9. Let \<^verbatim>\<open>import readline\<close> fail, and let the decorator be built with no
  arguments (all entities enabled). A call of the wrapped function raises nothing of its
  own: its outcome is the outcome of the function. The call has the result and the final
  I/O state of the same call under a decorator built with \<^verbatim>\<open>readline=False, stdout=True\<close>,
  and the same accesses after the failed import: the completer is neither read nor set.
\<close>

theorem absent_readline_as_if_disabled:
  assumes "isolate_io_context [] = Inr d"
    and "isolate_io_context [(''readline'', PyBool False), (''stdout'', PyBool True)] = Inr d_off"
    and "\<not> readline_importable s"
    and "exec (function args kwargs) (cell d_off) (s\<lparr>sys_stdout := sys_dunder_stdout s\<rparr>)
           = (res, d_out, s_out)"
  shows "fst (wrapper (run_function function) (cell d) args kwargs s) =
           (case res of Inl x \<Rightarrow> Inl (Raised x) | Inr retval \<Rightarrow> Inr retval)
    \<and> fst (wrapper (run_function function) (cell d) args kwargs s) =
        fst (wrapper (run_function function) (cell d_off) args kwargs s)
    \<and> io (snd (wrapper (run_function function) (cell d) args kwargs s)) =
        io (snd (wrapper (run_function function) (cell d_off) args kwargs s))
    \<and> accesses (snd (wrapper (run_function function) (cell d) args kwargs s)) =
        ImportReadline # accesses (snd (wrapper (run_function function) (cell d_off) args kwargs s))
    \<and> (\<forall>e \<in> set (accesses (snd (wrapper (run_function function) (cell d) args kwargs s))).
          e \<noteq> GetCompleter \<and> (\<forall>c. e \<noteq> SetCompleter c))"
proof -
  have d: "cell d = [(''readline'', True), (''stdout'', True)]"
    using assms(1)
    by (auto simp: isolate_io_context_def init_decorator_args_def IO_ENTITIES_def)
  have d_off: "cell d_off = [(''readline'', False), (''stdout'', True)]"
    using assms(2)
    by (auto simp: isolate_io_context_def init_decorator_args_def IO_ENTITIES_def)
  have run_on: "exec (function args kwargs)
           (if True \<and> \<not> readline_importable s then AList.update ''readline'' False (cell d)
            else cell d)
           (s\<lparr>readline_completer :=
                 (if True \<and> readline_importable s then IdentityLambda else readline_completer s),
              sys_stdout := (if True then sys_dunder_stdout s else sys_stdout s)\<rparr>)
           = (res, d_out, s_out)"
    using assms(3,4) by (simp add: d d_off)
  have run_off: "exec (function args kwargs)
           (if False \<and> \<not> readline_importable s then AList.update ''readline'' False (cell d_off)
            else cell d_off)
           (s\<lparr>readline_completer :=
                 (if False \<and> readline_importable s then IdentityLambda else readline_completer s),
              sys_stdout := (if True then sys_dunder_stdout s else sys_stdout s)\<rparr>)
           = (res, d_out, s_out)"
    using assms(3,4) by simp
  have no: "map_of d_out ''readline'' \<noteq> Some True"
    using wrapper_runs_body(4) [of "cell d_off" False True "function" args kwargs s res d_out s_out,
        OF _ _ run_off]
    by (simp add: d_off)
  show ?thesis
    using wrapper_runs_body(1) [of "cell d" True True "function" args kwargs s res d_out s_out,
        OF _ _ run_on]
      wrapper_runs_body(1) [of "cell d_off" False True "function" args kwargs s res d_out s_out,
        OF _ _ run_off]
      assms(3) no
    by (simp add: d d_off)
qed

theorem absent_readline_as_if_disabled_witness:
  "fst (wrapper (run_function (\<lambda>a k. Finish (Inr ()) :: (nat, string, unit) body))
       [(''readline'', True), (''stdout'', True)] [] []
       \<lparr>readline_importable = False, readline_completer = NoCompleter,
        sys_stdout = Stream 2, sys_dunder_stdout = Stream 0\<rparr>) = Inr ()
   \<and> accesses (snd (wrapper (run_function (\<lambda>a k. Finish (Inr ()) :: (nat, string, unit) body))
       [(''readline'', True), (''stdout'', True)] [] []
       \<lparr>readline_importable = False, readline_completer = NoCompleter,
        sys_stdout = Stream 2, sys_dunder_stdout = Stream 0\<rparr>)) =
     ImportReadline # accesses (snd (wrapper (run_function (\<lambda>a k. Finish (Inr ()) :: (nat, string, unit) body))
       [(''readline'', False), (''stdout'', True)] [] []
       \<lparr>readline_importable = False, readline_completer = NoCompleter,
        sys_stdout = Stream 2, sys_dunder_stdout = Stream 0\<rparr>))"
  using absent_readline_as_if_disabled [of "Decorator [(''readline'', True), (''stdout'', True)]"
      "Decorator [(''readline'', False), (''stdout'', True)]"
      "\<lparr>readline_importable = False, readline_completer = NoCompleter,
        sys_stdout = Stream 2, sys_dunder_stdout = Stream 0\<rparr>"
      "(\<lambda>a k. Finish (Inr ()) :: (nat, string, unit) body)"
      "[]" "[]" "Inr ()" "[(''readline'', False), (''stdout'', True)]"
      "\<lparr>readline_importable = False, readline_completer = NoCompleter,
        sys_stdout = Stream 0, sys_dunder_stdout = Stream 0\<rparr>"]
  by (simp add: isolate_io_context_def init_decorator_args_def IO_ENTITIES_def)

subsection \<open>The downgrade is stored\<close>




end
